theory Spec2Isabelle
  imports Main "HOL-Library.Word"
begin

unbundle bit_operations_syntax

section \<open>The QSA audio backend (src/audio/qnx/SDL\_qsa\_audio.c)\<close>

subsection \<open>Sample formats\<close>

text \<open>
  The host's sample formats (\<^verbatim>\<open>SDL_AudioFormat\<close>) and the native ones
  (\<^verbatim>\<open>SND_PCM_SFMT_*\<close>) are declared in headers outside the driver. Each is modelled as
  a datatype: the eight names the driver's two \<^verbatim>\<open>CHECKFMT\<close> tables mention, and one
  more constructor for every other code. \<^verbatim>\<open>SDL_AUDIO_UNKNOWN\<close> is the code 0 that ends the
  host's candidate array.
\<close>

datatype SDL_AudioFormat =
    SDL_AUDIO_UNKNOWN
  | SDL_AUDIO_U8
  | SDL_AUDIO_S8
  | SDL_AUDIO_S16LSB
  | SDL_AUDIO_S16MSB
  | SDL_AUDIO_S32LSB
  | SDL_AUDIO_S32MSB
  | SDL_AUDIO_F32LSB
  | SDL_AUDIO_F32MSB
  | SDL_AUDIO_OTHER nat

datatype snd_pcm_sfmt =
    SND_PCM_SFMT_U8
  | SND_PCM_SFMT_S8
  | SND_PCM_SFMT_S16_LE
  | SND_PCM_SFMT_S16_BE
  | SND_PCM_SFMT_S32_LE
  | SND_PCM_SFMT_S32_BE
  | SND_PCM_SFMT_FLOAT_LE
  | SND_PCM_SFMT_FLOAT_BE
  | SND_PCM_SFMT_OTHER nat

text \<open>
  \<^verbatim>\<open>SDL_AUDIO_S16\<close> is the host's name for signed 16 bit in the byte order of the
  machine; the byte order is a parameter.
\<close>

datatype byteorder = SDL_LIL_ENDIAN | SDL_BIG_ENDIAN

definition SDL_AUDIO_S16 :: "byteorder \<Rightarrow> SDL_AudioFormat" where
  "SDL_AUDIO_S16 bo = (case bo of SDL_LIL_ENDIAN \<Rightarrow> SDL_AUDIO_S16LSB | SDL_BIG_ENDIAN \<Rightarrow> SDL_AUDIO_S16MSB)"

text \<open>
  The \<^verbatim>\<open>switch (test_format)\<close> of \<^verbatim>\<open>QSA_OpenDevice\<close> (lines 228 to 240): the native
  format a \<^verbatim>\<open>CHECKFMT\<close> case stores in \<^verbatim>\<open>cparams.format.format\<close>, or \<open>None\<close> for
  \<^verbatim>\<open>default: continue\<close>.
\<close>

fun CHECKFMT_open :: "SDL_AudioFormat \<Rightarrow> snd_pcm_sfmt option" where
  "CHECKFMT_open SDL_AUDIO_U8 = Some SND_PCM_SFMT_U8"
| "CHECKFMT_open SDL_AUDIO_S8 = Some SND_PCM_SFMT_S8"
| "CHECKFMT_open SDL_AUDIO_S16LSB = Some SND_PCM_SFMT_S16_LE"
| "CHECKFMT_open SDL_AUDIO_S16MSB = Some SND_PCM_SFMT_S16_BE"
| "CHECKFMT_open SDL_AUDIO_S32LSB = Some SND_PCM_SFMT_S32_LE"
| "CHECKFMT_open SDL_AUDIO_S32MSB = Some SND_PCM_SFMT_S32_BE"
| "CHECKFMT_open SDL_AUDIO_F32LSB = Some SND_PCM_SFMT_FLOAT_LE"
| "CHECKFMT_open SDL_AUDIO_F32MSB = Some SND_PCM_SFMT_FLOAT_BE"
| "CHECKFMT_open _ = None"

text \<open>
  \<^verbatim>\<open>QnxFormatToSDLFormat\<close> (lines 297 to 313): the same eight pairs read from the native
  side, and \<^verbatim>\<open>SDL_AUDIO_S16\<close> (``oh well'') for every other native code.
\<close>

fun QnxFormatToSDLFormat :: "byteorder \<Rightarrow> snd_pcm_sfmt \<Rightarrow> SDL_AudioFormat" where
  "QnxFormatToSDLFormat bo SND_PCM_SFMT_U8 = SDL_AUDIO_U8"
| "QnxFormatToSDLFormat bo SND_PCM_SFMT_S8 = SDL_AUDIO_S8"
| "QnxFormatToSDLFormat bo SND_PCM_SFMT_S16_LE = SDL_AUDIO_S16LSB"
| "QnxFormatToSDLFormat bo SND_PCM_SFMT_S16_BE = SDL_AUDIO_S16MSB"
| "QnxFormatToSDLFormat bo SND_PCM_SFMT_S32_LE = SDL_AUDIO_S32LSB"
| "QnxFormatToSDLFormat bo SND_PCM_SFMT_S32_BE = SDL_AUDIO_S32MSB"
| "QnxFormatToSDLFormat bo SND_PCM_SFMT_FLOAT_LE = SDL_AUDIO_F32LSB"
| "QnxFormatToSDLFormat bo SND_PCM_SFMT_FLOAT_BE = SDL_AUDIO_F32MSB"
| "QnxFormatToSDLFormat bo (SND_PCM_SFMT_OTHER n) = SDL_AUDIO_S16 bo"

text \<open>The formats with an entry in the table, on each side.\<close>

definition supported_generic :: "SDL_AudioFormat list" where
  "supported_generic =
     [SDL_AUDIO_U8, SDL_AUDIO_S8, SDL_AUDIO_S16LSB, SDL_AUDIO_S16MSB,
      SDL_AUDIO_S32LSB, SDL_AUDIO_S32MSB, SDL_AUDIO_F32LSB, SDL_AUDIO_F32MSB]"

definition supported_native :: "snd_pcm_sfmt list" where
  "supported_native =
     [SND_PCM_SFMT_U8, SND_PCM_SFMT_S8, SND_PCM_SFMT_S16_LE, SND_PCM_SFMT_S16_BE,
      SND_PCM_SFMT_S32_LE, SND_PCM_SFMT_S32_BE, SND_PCM_SFMT_FLOAT_LE, SND_PCM_SFMT_FLOAT_BE]"

subsection \<open>The device\<close>

text \<open>
  \<^verbatim>\<open>SDL_AudioSpec\<close>, the driver's private block \<^verbatim>\<open>struct SDL_PrivateAudioData\<close>
  and the fields of \<^verbatim>\<open>SDL_AudioDevice\<close> that the driver touches. A pointer is an
  \<open>option\<close>: \<open>None\<close> is \<^verbatim>\<open>NULL\<close>, \<open>Some n\<close> the object with identity \<open>n\<close>.
  \<^verbatim>\<open>device->shutdown\<close> is written by another thread, so it is not a field: the
  functions that read it take the values of their successive reads as an argument.
\<close>

record SDL_AudioSpec =
  format :: SDL_AudioFormat
  channels :: int
  freq :: int

record SDL_PrivateAudioData =
  audio_handle :: "nat option"
  audio_fd :: int
  timeout_on_wait :: bool
  pcm_buf :: "nat option"

record SDL_AudioDevice =
  hidden :: "SDL_PrivateAudioData option"
  recording :: bool
  spec :: SDL_AudioSpec
  handle :: "32 word"
  sample_frames :: int
  buffer_size :: int
  silence_value :: int

datatype snd_pcm_channel = SND_PCM_CHANNEL_PLAYBACK | SND_PCM_CHANNEL_CAPTURE

datatype snd_pcm_open_mode = SND_PCM_OPEN_PLAYBACK | SND_PCM_OPEN_CAPTURE

datatype snd_pcm_mode = SND_PCM_MODE_UNSET | SND_PCM_MODE_BLOCK

datatype snd_pcm_start = SND_PCM_START_UNSET | SND_PCM_START_DATA

datatype snd_pcm_stop = SND_PCM_STOP_UNSET | SND_PCM_STOP_STOP

record snd_pcm_channel_params =
  cp_channel :: snd_pcm_channel
  cp_mode :: snd_pcm_mode
  cp_start_mode :: snd_pcm_start
  cp_stop_mode :: snd_pcm_stop
  cp_format :: snd_pcm_sfmt
  cp_interleave :: int
  cp_rate :: int
  cp_voices :: int
  cp_frag_size :: int
  cp_frags_min :: int
  cp_frags_max :: int

text \<open>
  The value of \<^verbatim>\<open>errno\<close> after a native write, as far as the driver tells values apart
  (on a system where \<^verbatim>\<open>EWOULDBLOCK\<close> is \<^verbatim>\<open>EAGAIN\<close> the second constructor never
  occurs), and the channel status that \<^verbatim>\<open>snd_pcm_plugin_status\<close> stores.
\<close>

datatype errno = EAGAIN | EWOULDBLOCK | EINVAL | EIO | E_OTHER nat

datatype snd_pcm_status = SND_PCM_STATUS_UNDERRUN | SND_PCM_STATUS_READY | SND_PCM_STATUS_OTHER nat

datatype io_flag = SDL_IOR_READ | SDL_IOR_WRITE

text \<open>
  The calls the driver makes to its collaborators, in the order it makes them. The
  write carries the offset of its source pointer from the start of the caller's buffer.
\<close>

datatype native_call =
    Snd_card_get_longname int
  | Snd_pcm_open int int snd_pcm_open_mode
  | Snd_pcm_plugin_params "nat option" snd_pcm_channel_params
  | Snd_pcm_plugin_setup "nat option" snd_pcm_channel
  | Snd_pcm_file_descriptor "nat option" snd_pcm_channel
  | Snd_pcm_plugin_prepare "nat option" snd_pcm_channel
  | Snd_pcm_plugin_write "nat option" int int
  | Snd_pcm_plugin_status "nat option" snd_pcm_channel
  | Snd_pcm_plugin_flush "nat option" snd_pcm_channel
  | Snd_pcm_close "nat option"
  | SDL_Delay nat
  | SDL_memset "nat option" int int
  | SDL_free_pcm_buf "nat option"
  | SDL_free_hidden
  | QSA_SetError string int
  | SDL_SetError string
  | SDL_AddAudioDevice bool string "SDL_AudioSpec option" "32 word"

datatype fault = NullDereference

subsection \<open>Waiting for the device\<close>

text \<open>
  \<^verbatim>\<open>QSA_WaitDevice\<close> (lines 89 to 111). \<open>SDL_IOReady\<close> is the host's poll, a function
  of the descriptor, the direction and the timeout in milliseconds; the driver passes
  \<^verbatim>\<open>2 * 1000\<close>. The result is the returned flag and the device after the call.
\<close>

definition QSA_WaitDevice ::
  "(int \<Rightarrow> io_flag \<Rightarrow> int \<Rightarrow> int) \<Rightarrow> SDL_AudioDevice \<Rightarrow> fault + (bool \<times> SDL_AudioDevice)" where
  "QSA_WaitDevice SDL_IOReady device =
     (case hidden device of
        None \<Rightarrow> Inl NullDereference
      | Some h \<Rightarrow>
          let result = SDL_IOReady (audio_fd h)
                         (if recording device then SDL_IOR_READ else SDL_IOR_WRITE) (2 * 1000)
          in if result = - 1 then Inr (False, device)
             else if result = 0 then Inr (True, device\<lparr>hidden := Some (h\<lparr>timeout_on_wait := True\<rparr>)\<rparr>)
             else Inr (True, device\<lparr>hidden := Some (h\<lparr>timeout_on_wait := False\<rparr>)\<rparr>))"

subsection \<open>Playing a buffer\<close>

text \<open>
  Where control stands when the block of lines 123 to 164 has been run once: at a
  \<^verbatim>\<open>return\<close>, at a \<^verbatim>\<open>continue\<close>, or past the end of the \<^verbatim>\<open>if\<close>/\<^verbatim>\<open>else\<close>. The last
  two carry \<^verbatim>\<open>towrite\<close> and the offset of \<^verbatim>\<open>buffer\<close>.
\<close>

datatype flow = Return bool | Continue int int | EndOfBody int int

definition direction :: "SDL_AudioDevice \<Rightarrow> snd_pcm_channel" where
  "direction device = (if recording device then SND_PCM_CHANNEL_CAPTURE else SND_PCM_CHANNEL_PLAYBACK)"

text \<open>
  Lines 123 to 164, for a device whose private block is \<open>h\<close>. \<open>wr\<close> is what the native
  write returns with the \<^verbatim>\<open>errno\<close> it leaves, \<open>st\<close> what the status query returns with
  the status it stores, \<open>pr\<close> what the re-prepare returns; the last two are read only on
  the paths that make those calls.
\<close>

definition play_body ::
  "SDL_AudioDevice \<Rightarrow> SDL_PrivateAudioData \<Rightarrow> int \<Rightarrow> int \<Rightarrow>
   int \<times> errno \<Rightarrow> int \<times> snd_pcm_status \<Rightarrow> int \<Rightarrow> flow \<times> native_call list" where
  "play_body device h towrite buffer wr st pr =
     (let bw = fst wr; err = snd wr;
          w = Snd_pcm_plugin_write (audio_handle h) buffer towrite
      in if bw \<noteq> towrite then
           if err = EAGAIN \<and> bw = 0 \<and> timeout_on_wait h then (Return True, [w])
           else if err = EAGAIN \<or> err = EWOULDBLOCK then
             (Continue (towrite - bw) (buffer + bw * channels (spec device)), [w, SDL_Delay 1])
           else if err = EINVAL \<or> err = EIO then
             let q = Snd_pcm_plugin_status (audio_handle h) (direction device)
             in if fst st < 0 then
                  (Return False, [w, q, QSA_SetError ''snd_pcm_plugin_status'' (fst st)])
                else if snd st = SND_PCM_STATUS_UNDERRUN \<or> snd st = SND_PCM_STATUS_READY then
                  let p = Snd_pcm_plugin_prepare (audio_handle h) (direction device)
                  in if pr < 0 then
                       (Return False, [w, q, p, QSA_SetError ''snd_pcm_plugin_prepare'' pr])
                     else (Continue towrite buffer, [w, q, p])
                else (Continue towrite buffer, [w, q])
           else (Return False, [w])
         else (EndOfBody (towrite - bw) (buffer + bw * channels (spec device)), [w]))"

text \<open>
  Line 122 as it is written, \<^verbatim>\<open>while ((towrite > 0) && !shutdown);\<close>: the statement
  ends at the semicolon, so the loop has an empty body and reads the shutdown flag until
  it is set. \<open>sd k\<close> is the value that the read number \<open>k\<close> sees; the result is the
  number of reads made when the loop is left, and \<open>None\<close> when it is never left.
\<close>

partial_function (option) spin :: "int \<Rightarrow> (nat \<Rightarrow> bool) \<Rightarrow> nat \<Rightarrow> nat option" where
  "spin towrite sd k =
     (if towrite > 0 then (if \<not> sd k then spin towrite sd (Suc k) else Some (Suc k))
      else Some k)"

text \<open>
  The native results of one call of \<^verbatim>\<open>QSA_PlayDevice\<close>: the reads of the shutdown flag
  and the results of the native write, status query and re-prepare.
\<close>

record play_env =
  pe_shutdown :: "nat \<Rightarrow> bool"
  pe_write :: "int \<times> errno"
  pe_status :: "int \<times> snd_pcm_status"
  pe_prepare :: int

text \<open>
  \<^verbatim>\<open>QSA_PlayDevice\<close> (lines 113 to 169) as it is written. After the entry check and the
  empty loop of line 122 the block of lines 123 to 164 is entered once. Falling off its
  end reaches \<^verbatim>\<open>return (towrite == 0)\<close>; a \<^verbatim>\<open>continue\<close> in it has no loop around it,
  and the model stops there with \<open>Continue\<close>. The result is \<open>None\<close> when the empty loop
  never ends; otherwise the flow, the native calls made, and the number of reads of the
  shutdown flag.
\<close>

definition QSA_PlayDevice ::
  "play_env \<Rightarrow> SDL_AudioDevice \<Rightarrow> int \<Rightarrow> (flow \<times> native_call list \<times> nat) option" where
  "QSA_PlayDevice env device buflen =
     (if pe_shutdown env 0 then Some (Return True, [], 1)
      else case hidden device of
        None \<Rightarrow> Some (Return True, [], 1)
      | Some h \<Rightarrow>
          (case spin buflen (pe_shutdown env) 1 of
             None \<Rightarrow> None
           | Some k \<Rightarrow>
               (case play_body device h buflen 0 (pe_write env) (pe_status env) (pe_prepare env) of
                  (EndOfBody towrite buffer, calls) \<Rightarrow> Some (Return (towrite = 0), calls, k)
                | (fl, calls) \<Rightarrow> Some (fl, calls, k))))"

text \<open>\<^verbatim>\<open>QSA_GetDeviceBuf\<close> (lines 171 to 174).\<close>

definition QSA_GetDeviceBuf :: "SDL_AudioDevice \<Rightarrow> fault + nat option" where
  "QSA_GetDeviceBuf device =
     (case hidden device of None \<Rightarrow> Inl NullDereference | Some h \<Rightarrow> Inr (pcm_buf h))"

subsection \<open>Closing\<close>

text \<open>
  \<^verbatim>\<open>QSA_CloseDevice\<close> (lines 176 to 191). The flush is compiled in when
  \<^verbatim>\<open>_NTO_VERSION < 710\<close>; the version is a parameter. \<^verbatim>\<open>SDL_free\<close> is called on
  \<^verbatim>\<open>pcm_buf\<close> whatever it holds (on \<^verbatim>\<open>NULL\<close> it does nothing), then on the private
  block, and the pointer to the block is cleared.
\<close>

definition QSA_CloseDevice :: "nat \<Rightarrow> SDL_AudioDevice \<Rightarrow> SDL_AudioDevice \<times> native_call list" where
  "QSA_CloseDevice nto_version device =
     (case hidden device of
        None \<Rightarrow> (device, [])
      | Some h \<Rightarrow>
          (device\<lparr>hidden := None\<rparr>,
           (case audio_handle h of
              None \<Rightarrow> []
            | Some a \<Rightarrow>
                (if nto_version < 710 then [Snd_pcm_plugin_flush (Some a) (direction device)] else [])
                @ [Snd_pcm_close (Some a)])
           @ [SDL_free_pcm_buf (pcm_buf h), SDL_free_hidden]))"

subsection \<open>Opening and negotiating the format\<close>

definition DEFAULT_CPARAMS_RATE :: int where "DEFAULT_CPARAMS_RATE = 44100"
definition DEFAULT_CPARAMS_VOICES :: int where "DEFAULT_CPARAMS_VOICES = 1"
definition DEFAULT_CPARAMS_FRAG_SIZE :: int where "DEFAULT_CPARAMS_FRAG_SIZE = 4096"
definition DEFAULT_CPARAMS_FRAGS_MIN :: int where "DEFAULT_CPARAMS_FRAGS_MIN = 1"
definition DEFAULT_CPARAMS_FRAGS_MAX :: int where "DEFAULT_CPARAMS_FRAGS_MAX = 1"

text \<open>\<^verbatim>\<open>QSA_InitAudioParams\<close> (lines 72 to 86).\<close>

definition QSA_InitAudioParams :: snd_pcm_channel_params where
  "QSA_InitAudioParams =
     \<lparr>cp_channel = SND_PCM_CHANNEL_PLAYBACK,
      cp_mode = SND_PCM_MODE_BLOCK,
      cp_start_mode = SND_PCM_START_DATA,
      cp_stop_mode = SND_PCM_STOP_STOP,
      cp_format = SND_PCM_SFMT_S16_LE,
      cp_interleave = 1,
      cp_rate = DEFAULT_CPARAMS_RATE,
      cp_voices = DEFAULT_CPARAMS_VOICES,
      cp_frag_size = DEFAULT_CPARAMS_FRAG_SIZE,
      cp_frags_min = DEFAULT_CPARAMS_FRAGS_MIN,
      cp_frags_max = DEFAULT_CPARAMS_FRAGS_MAX\<rparr>"

text \<open>
  The loop of lines 224 to 242 over the array that \<^verbatim>\<open>SDL_ClosestAudioFormats\<close> returns.
  The array ends with the code 0; the list holds its entries, and its end counts as that
  0 too. The result is \<^verbatim>\<open>test_format\<close> when the loop is left and the channel
  parameters then.
\<close>

fun format_loop ::
  "SDL_AudioFormat list \<Rightarrow> snd_pcm_channel_params \<Rightarrow> SDL_AudioFormat \<times> snd_pcm_channel_params" where
  "format_loop [] cparams = (SDL_AUDIO_UNKNOWN, cparams)"
| "format_loop (test_format # closefmts) cparams =
     (if test_format = SDL_AUDIO_UNKNOWN then (SDL_AUDIO_UNKNOWN, cparams)
      else case CHECKFMT_open test_format of
             Some qsafmt \<Rightarrow> (test_format, cparams\<lparr>cp_format := qsafmt\<rparr>)
           | None \<Rightarrow> format_loop closefmts cparams)"

datatype open_error =
    RecordingUnsupported
  | OutOfMemory
  | NativeFailed string int
  | NoHardwareFormat
  | UnableToSetupChannel

text \<open>
  What the collaborators answer during one \<^verbatim>\<open>QSA_OpenDevice\<close>: whether
  \<^verbatim>\<open>SDL_calloc\<close> gave a block, the status of \<^verbatim>\<open>snd_pcm_open\<close> and the handle it
  stored, the host's candidate array for a desired format, the status of
  \<^verbatim>\<open>snd_pcm_plugin_params\<close>, the status of \<^verbatim>\<open>snd_pcm_plugin_setup\<close> with the fragment
  size it stored, the buffer size and silence value that \<^verbatim>\<open>SDL_UpdatedAudioDeviceFormat\<close>
  computes for the device, the block \<^verbatim>\<open>SDL_malloc\<close> gave, the descriptor and the status
  of \<^verbatim>\<open>snd_pcm_plugin_prepare\<close>.
\<close>

record open_env =
  oe_calloc :: bool
  oe_pcm_open :: "int \<times> nat"
  oe_closefmts :: "SDL_AudioFormat \<Rightarrow> SDL_AudioFormat list"
  oe_params :: int
  oe_setup :: "int \<times> int"
  oe_updated :: "SDL_AudioDevice \<Rightarrow> int \<times> int"
  oe_malloc :: "nat option"
  oe_fd :: int
  oe_prepare :: int

text \<open>
  \<^verbatim>\<open>QSA_OpenDevice\<close> (lines 193 to 295): the error or success, the device as the call
  leaves it, and the native calls made. The assertion of line 199 is not modelled.
\<close>

definition QSA_OpenDevice ::
  "open_env \<Rightarrow> SDL_AudioDevice \<Rightarrow> (open_error + unit) \<times> SDL_AudioDevice \<times> native_call list" where
  "QSA_OpenDevice env device =
     (if recording device then
        (Inl RecordingUnsupported, device,
         [SDL_SetError ''SDL recording support isn't available on QNX atm''])
      else
        let sdlhandle = handle device;
            cardno = sdlhandle AND 0xFFFF;
            deviceno = drop_bit 16 sdlhandle AND 0xFFFF;
            chan = direction device
        in if \<not> oe_calloc env then (Inl OutOfMemory, device\<lparr>hidden := None\<rparr>, [])
           else
             let h0 = \<lparr>audio_handle = None, audio_fd = 0, timeout_on_wait = False, pcm_buf = None\<rparr>;
                 cparams = QSA_InitAudioParams;
                 c1 = [Snd_pcm_open (uint cardno) (uint deviceno)
                         (if recording device then SND_PCM_OPEN_CAPTURE else SND_PCM_OPEN_PLAYBACK)];
                 status = fst (oe_pcm_open env)
             in if status < 0 then
                  (Inl (NativeFailed ''snd_pcm_open'' status), device\<lparr>hidden := Some h0\<rparr>,
                   c1 @ [QSA_SetError ''snd_pcm_open'' status])
                else
                  let h1 = h0\<lparr>audio_handle := Some (snd (oe_pcm_open env))\<rparr>;
                      d1 = device\<lparr>hidden := Some h1\<rparr>;
                      (test_format, cparams1) =
                         format_loop (oe_closefmts env (format (spec device))) cparams
                  in if test_format = SDL_AUDIO_UNKNOWN then
                       (Inl NoHardwareFormat, d1,
                        c1 @ [SDL_SetError ''QSA: Couldn't find any hardware audio formats''])
                     else
                       let d2 = d1\<lparr>spec := (spec d1)\<lparr>format := test_format\<rparr>\<rparr>;
                           cparams2 = cparams1\<lparr>cp_voices := channels (spec d2), cp_rate := freq (spec d2)\<rparr>;
                           c2 = c1 @ [Snd_pcm_plugin_params (audio_handle h1) cparams2]
                       in if oe_params env < 0 then
                            (Inl (NativeFailed ''snd_pcm_plugin_params'' (oe_params env)), d2,
                             c2 @ [QSA_SetError ''snd_pcm_plugin_params'' (oe_params env)])
                          else
                            let c3 = c2 @ [Snd_pcm_plugin_setup (audio_handle h1) chan]
                            in if fst (oe_setup env) < 0 then
                                 (Inl UnableToSetupChannel, d2,
                                  c3 @ [SDL_SetError ''QSA: Unable to setup channel''])
                               else
                                 let d3 = d2\<lparr>sample_frames := snd (oe_setup env)\<rparr>;
                                     d4 = d3\<lparr>buffer_size := fst (oe_updated env d3),
                                             silence_value := snd (oe_updated env d3)\<rparr>;
                                     h2 = h1\<lparr>pcm_buf := oe_malloc env\<rparr>;
                                     d5 = d4\<lparr>hidden := Some h2\<rparr>
                                 in if oe_malloc env = None then (Inl OutOfMemory, d5, c3)
                                    else
                                      let c4 = c3 @ [SDL_memset (pcm_buf h2) (silence_value d5) (buffer_size d5),
                                                     Snd_pcm_file_descriptor (audio_handle h2) chan];
                                          h3 = h2\<lparr>audio_fd := oe_fd env\<rparr>;
                                          d6 = d5\<lparr>hidden := Some h3\<rparr>
                                      in if audio_fd h3 < 0 then
                                           (Inl (NativeFailed ''snd_pcm_file_descriptor'' (audio_fd h3)), d6,
                                            c4 @ [QSA_SetError ''snd_pcm_file_descriptor'' (audio_fd h3)])
                                         else
                                           let c5 = c4 @ [Snd_pcm_plugin_prepare (audio_handle h3) chan]
                                           in if oe_prepare env < 0 then
                                                (Inl (NativeFailed ''snd_pcm_plugin_prepare'' (oe_prepare env)), d6,
                                                 c5 @ [QSA_SetError ''snd_pcm_plugin_prepare'' (oe_prepare env)])
                                              else (Inr (), d6, c5))"

subsection \<open>Detecting devices\<close>

definition EOK :: int where "EOK = 0"
definition ENOENT :: int where "ENOENT = 2"

text \<open>Decimal text of an integer, as \<^verbatim>\<open>%d\<close> prints it.\<close>

fun dec_nat :: "nat \<Rightarrow> string" where
  "dec_nat n =
     (if n < 10 then [''0123456789'' ! n] else dec_nat (n div 10) @ [''0123456789'' ! (n mod 10)])"

definition dec_int :: "int \<Rightarrow> string" where
  "dec_int i = (if i < 0 then CHR ''-'' # dec_nat (nat (- i)) else dec_nat (nat i))"

definition QSA_MAX_NAME_LENGTH :: nat where "QSA_MAX_NAME_LENGTH = 81 + 16"

datatype loop_ctl = Break | NextDevice

text \<open>
  What the sound system answers during detection: the status and long name of a card,
  the status of a tentative open and the handle it stores, for the handle that a setup
  query is made on its status with the format, channel count and rate it stores, and the
  status of closing a handle.
\<close>

record detect_env =
  de_longname :: "int \<Rightarrow> int \<times> string"
  de_pcm_open :: "int \<Rightarrow> 32 word \<Rightarrow> snd_pcm_open_mode \<Rightarrow> int \<times> nat"
  de_setup :: "nat option \<Rightarrow> snd_pcm_channel \<Rightarrow> int \<times> snd_pcm_sfmt \<times> int \<times> int"
  de_close :: "nat \<Rightarrow> int"

text \<open>
  The body of the loop over the devices of one card in \<^verbatim>\<open>QSA_DetectDevices\<close> (lines 341
  to 396), for the card \<open>card_no\<close> (\<^verbatim>\<open>card\<close> in the source) and the device number \<open>deviceno\<close>. The setup query of
  line 372 is written on \<^verbatim>\<open>device->hidden->audio_handle\<close>; the function declares no
  \<^verbatim>\<open>device\<close>, so the device that this name stands for is a parameter. The handle that
  line 354 opened is \<open>hdl\<close>. The capture fallback is under \<^verbatim>\<open>#if 0\<close>. The result says
  whether the loop goes on to the next device number, and lists the native calls; the
  assertions of lines 383 and 384 are not modelled.
\<close>

definition detect_probe ::
  "byteorder \<Rightarrow> detect_env \<Rightarrow> SDL_AudioDevice \<Rightarrow> int \<Rightarrow> 32 word \<Rightarrow>
   fault + (loop_ctl \<times> native_call list)" where
  "detect_probe bo env device card_no deviceno =
     (let c0 = [Snd_card_get_longname card_no];
          name = take (QSA_MAX_NAME_LENGTH - 1) (snd (de_longname env card_no))
      in if fst (de_longname env card_no) = EOK then
           let fullname = take (QSA_MAX_NAME_LENGTH + 32 - 1) (name @ '' d'' @ dec_int (sint deviceno));
               recording = False;
               (status, hdl) = de_pcm_open env card_no deviceno SND_PCM_OPEN_PLAYBACK;
               c1 = c0 @ [Snd_pcm_open card_no (uint deviceno) SND_PCM_OPEN_PLAYBACK]
           in if status = EOK then
                (case hidden device of
                   None \<Rightarrow> Inl NullDereference
                 | Some dh \<Rightarrow>
                     let chan = (if recording then SND_PCM_CHANNEL_CAPTURE else SND_PCM_CHANNEL_PLAYBACK);
                         (st, qnxfmt, voices, rate) = de_setup env (audio_handle dh) chan;
                         pspec = (if st < 0 then None
                                  else Some \<lparr>format = QnxFormatToSDLFormat bo qnxfmt,
                                             channels = voices, freq = rate\<rparr>);
                         c2 = c1 @ [Snd_pcm_plugin_setup (audio_handle dh) chan, Snd_pcm_close (Some hdl)]
                     in if de_close env hdl = EOK then
                          Inr (NextDevice,
                               c2 @ [SDL_AddAudioDevice recording fullname pspec
                                       (word_of_int card_no OR push_bit 16 deviceno)])
                        else Inr (NextDevice, c2))
              else if status = - ENOENT then Inr (Break, c1)
              else Inr (NextDevice, c1)
         else Inr (Break, c0))"

subsection \<open>Reading a list of calls\<close>

fun is_buf_free :: "native_call \<Rightarrow> bool" where
  "is_buf_free (SDL_free_pcm_buf (Some b)) = True"
| "is_buf_free _ = False"

fun is_pcm_close :: "native_call \<Rightarrow> bool" where
  "is_pcm_close (Snd_pcm_close a) = True"
| "is_pcm_close _ = False"

fun on_null_handle :: "native_call \<Rightarrow> bool" where
  "on_null_handle (Snd_pcm_close None) = True"
| "on_null_handle (Snd_pcm_plugin_flush None c) = True"
| "on_null_handle _ = False"

subsection \<open>Concrete devices and environments\<close>

definition ex_hidden :: SDL_PrivateAudioData where
  "ex_hidden = \<lparr>audio_handle = Some 7, audio_fd = 3, timeout_on_wait = True, pcm_buf = Some 9\<rparr>"

definition ex_device :: SDL_AudioDevice where
  "ex_device =
     \<lparr>hidden = Some ex_hidden, recording = False,
      spec = \<lparr>format = SDL_AUDIO_S16LSB, channels = 2, freq = 48000\<rparr>,
      handle = 0x00010002, sample_frames = 1024, buffer_size = 4096, silence_value = 0\<rparr>"

definition ex_closed :: SDL_AudioDevice where
  "ex_closed = ex_device\<lparr>hidden := None, spec := \<lparr>format = SDL_AUDIO_OTHER 16, channels = 2, freq = 48000\<rparr>\<rparr>"

definition ex_open_env :: open_env where
  "ex_open_env =
     \<lparr>oe_calloc = True, oe_pcm_open = (0, 7),
      oe_closefmts = (\<lambda>f. [SDL_AUDIO_OTHER 16, SDL_AUDIO_S16MSB, SDL_AUDIO_S16LSB, SDL_AUDIO_UNKNOWN]),
      oe_params = 0, oe_setup = (0, 1024), oe_updated = (\<lambda>d. (4096, 0)),
      oe_malloc = Some 9, oe_fd = 3, oe_prepare = 0\<rparr>"

definition ex_play_env :: play_env where
  "ex_play_env =
     \<lparr>pe_shutdown = (\<lambda>k. 3 \<le> k), pe_write = (4, E_OTHER 0),
      pe_status = (0, SND_PCM_STATUS_OTHER 3), pe_prepare = 0\<rparr>"

definition ex_detect_env :: detect_env where
  "ex_detect_env =
     \<lparr>de_longname = (\<lambda>c. (0, ''Card'')),
      de_pcm_open = (\<lambda>c d m. (0, 42)),
      de_setup = (\<lambda>a c. if a = Some 42 then (0, SND_PCM_SFMT_S32_LE, 2, 48000)
                          else (0, SND_PCM_SFMT_U8, 1, 8000)),
      de_close = (\<lambda>a. 0)\<rparr>"

section \<open>Properties\<close>

subsection \<open>The format table\<close>

lemma CHECKFMT_open_supported: "CHECKFMT_open g \<noteq> None \<longleftrightarrow> g \<in> set supported_generic"
  by (cases g) (simp_all add: supported_generic_def)

lemma CHECKFMT_open_native: "CHECKFMT_open g = Some f \<Longrightarrow> f \<in> set supported_native \<and> QnxFormatToSDLFormat bo f = g"
  by (cases g) (auto simp: supported_native_def)

lemma Qnx_round: "f \<in> set supported_native \<Longrightarrow> CHECKFMT_open (QnxFormatToSDLFormat bo f) = Some f"
  by (auto simp: supported_native_def)

text \<open>
  Claim C3. The format table is a bijection on its eight entries: every native format
  of the table, mapped to its generic format by \<open>QnxFormatToSDLFormat\<close> and back by the
  switch of \<open>QSA_OpenDevice\<close>, is itself; every generic format of the table has a
  native format in the table that maps back to it; the generic formats of the table are
  exactly those the switch accepts; and each side has eight distinct entries.
\<close>

theorem format_table_round_trip:
  "(\<forall>f \<in> set supported_native. CHECKFMT_open (QnxFormatToSDLFormat bo f) = Some f)
   \<and> (\<forall>g \<in> set supported_generic. \<exists>f \<in> set supported_native.
         CHECKFMT_open g = Some f \<and> QnxFormatToSDLFormat bo f = g)
   \<and> (\<forall>g. g \<in> set supported_generic \<longleftrightarrow> CHECKFMT_open g \<noteq> None)
   \<and> length supported_native = 8 \<and> length supported_generic = 8
   \<and> distinct supported_native \<and> distinct supported_generic"
proof -
  have a: "\<forall>f \<in> set supported_native. CHECKFMT_open (QnxFormatToSDLFormat bo f) = Some f"
    by (simp add: Qnx_round)
  have b: "\<forall>g \<in> set supported_generic. \<exists>f \<in> set supported_native.
         CHECKFMT_open g = Some f \<and> QnxFormatToSDLFormat bo f = g"
  proof
    fix g assume "g \<in> set supported_generic"
    then obtain f where "CHECKFMT_open g = Some f"
      using CHECKFMT_open_supported [of g] by auto
    then show "\<exists>f \<in> set supported_native. CHECKFMT_open g = Some f \<and> QnxFormatToSDLFormat bo f = g"
      using CHECKFMT_open_native by blast
  qed
  have c: "\<forall>g. g \<in> set supported_generic \<longleftrightarrow> CHECKFMT_open g \<noteq> None"
    using CHECKFMT_open_supported by blast
  have d: "length supported_native = 8 \<and> length supported_generic = 8
     \<and> distinct supported_native \<and> distinct supported_generic"
    by (simp add: supported_native_def supported_generic_def)
  from a b c d show ?thesis by blast
qed

theorem format_table_round_trip_witness:
  "SND_PCM_SFMT_S32_BE \<in> set supported_native
   \<and> CHECKFMT_open (QnxFormatToSDLFormat SDL_LIL_ENDIAN SND_PCM_SFMT_S32_BE) = Some SND_PCM_SFMT_S32_BE
   \<and> SDL_AUDIO_F32LSB \<in> set supported_generic
   \<and> CHECKFMT_open SDL_AUDIO_F32LSB = Some SND_PCM_SFMT_FLOAT_LE
   \<and> QnxFormatToSDLFormat SDL_LIL_ENDIAN SND_PCM_SFMT_FLOAT_LE = SDL_AUDIO_F32LSB"
  using format_table_round_trip [of SDL_LIL_ENDIAN]
  by (simp add: supported_native_def supported_generic_def)

subsection \<open>Negotiating the format\<close>

lemma format_loop_find:
  "format_loop fs cp =
     (case find (\<lambda>f. CHECKFMT_open f \<noteq> None) (takeWhile (\<lambda>f. f \<noteq> SDL_AUDIO_UNKNOWN) fs) of
        None \<Rightarrow> (SDL_AUDIO_UNKNOWN, cp)
      | Some f \<Rightarrow> (f, cp\<lparr>cp_format := the (CHECKFMT_open f)\<rparr>))"
  by (induction fs) (auto split: option.splits)

lemma format_loop_fst:
  "fst (format_loop fs cp) = SDL_AUDIO_UNKNOWN \<or> fst (format_loop fs cp) \<in> set supported_generic"
proof (induction fs)
  case Nil
  then show ?case by simp
next
  case (Cons g fs)
  then show ?case
    using CHECKFMT_open_supported [of g] by (auto split: option.splits)
qed

lemma format_loop_none:
  "\<forall>g \<in> set fs. CHECKFMT_open g = None \<Longrightarrow> format_loop fs cp = (SDL_AUDIO_UNKNOWN, cp)"
  by (induction fs) auto

lemma find_mappable_known:
  "find (\<lambda>f. CHECKFMT_open f \<noteq> None) xs = Some f \<Longrightarrow> f \<noteq> SDL_AUDIO_UNKNOWN \<and> (\<exists>q. CHECKFMT_open f = Some q)"
  by (auto simp: find_Some_iff)

text \<open>
  Claim C2. When \<open>QSA_OpenDevice\<close> reaches the negotiation (playback, the private block
  allocated, the native open accepted), it walks the host's candidates in order up to the
  terminating 0 and takes the first one with a native mapping: that candidate becomes the
  device's format, and its native format, with the desired channel count and rate, is
  what is submitted to the hardware. If no candidate maps, the call fails with the
  ``no hardware audio formats'' error, the device's spec is left as it was and no
  parameters are submitted.
\<close>

theorem negotiation_selects_first_mappable:
  assumes "\<not> recording device" and "oe_calloc env" and "0 \<le> fst (oe_pcm_open env)"
  shows "case find (\<lambda>f. CHECKFMT_open f \<noteq> None)
                (takeWhile (\<lambda>f. f \<noteq> SDL_AUDIO_UNKNOWN) (oe_closefmts env (format (spec device)))) of
           None \<Rightarrow>
             fst (QSA_OpenDevice env device) = Inl NoHardwareFormat
             \<and> spec (fst (snd (QSA_OpenDevice env device))) = spec device
             \<and> (\<forall>h cp. Snd_pcm_plugin_params h cp \<notin> set (snd (snd (QSA_OpenDevice env device))))
         | Some f \<Rightarrow>
             fst (QSA_OpenDevice env device) \<noteq> Inl NoHardwareFormat
             \<and> format (spec (fst (snd (QSA_OpenDevice env device)))) = f
             \<and> (\<exists>cp. Snd_pcm_plugin_params (Some (snd (oe_pcm_open env))) cp
                        \<in> set (snd (snd (QSA_OpenDevice env device)))
                      \<and> Some (cp_format cp) = CHECKFMT_open f
                      \<and> cp_voices cp = channels (spec device) \<and> cp_rate cp = freq (spec device))"
proof (cases "find (\<lambda>f. CHECKFMT_open f \<noteq> None)
                (takeWhile (\<lambda>f. f \<noteq> SDL_AUDIO_UNKNOWN) (oe_closefmts env (format (spec device))))")
  case None
  then have fl: "format_loop (oe_closefmts env (format (spec device))) QSA_InitAudioParams
                 = (SDL_AUDIO_UNKNOWN, QSA_InitAudioParams)"
    by (simp add: format_loop_find)
  show ?thesis
    using assms None by (simp add: QSA_OpenDevice_def Let_def fl)
next
  case (Some f)
  from find_mappable_known [OF Some] obtain q where f: "f \<noteq> SDL_AUDIO_UNKNOWN" "CHECKFMT_open f = Some q"
    by blast
  have fl: "format_loop (oe_closefmts env (format (spec device))) QSA_InitAudioParams
                 = (f, QSA_InitAudioParams\<lparr>cp_format := q\<rparr>)"
    using Some f by (simp add: format_loop_find)
  show ?thesis
    using assms Some f by (simp add: QSA_OpenDevice_def Let_def fl)
qed

theorem negotiation_selects_first_mappable_witness:
  "\<not> recording ex_closed \<and> oe_calloc ex_open_env \<and> 0 \<le> fst (oe_pcm_open ex_open_env)
   \<and> oe_closefmts ex_open_env (format (spec ex_closed))
       = [SDL_AUDIO_OTHER 16, SDL_AUDIO_S16MSB, SDL_AUDIO_S16LSB, SDL_AUDIO_UNKNOWN]
   \<and> fst (QSA_OpenDevice ex_open_env ex_closed) \<noteq> Inl NoHardwareFormat
   \<and> format (spec (fst (snd (QSA_OpenDevice ex_open_env ex_closed)))) = SDL_AUDIO_S16MSB"
proof -
  have h: "\<not> recording ex_closed" "oe_calloc ex_open_env" "0 \<le> fst (oe_pcm_open ex_open_env)"
    by (simp_all add: ex_closed_def ex_device_def ex_open_env_def)
  have c: "oe_closefmts ex_open_env (format (spec ex_closed))
       = [SDL_AUDIO_OTHER 16, SDL_AUDIO_S16MSB, SDL_AUDIO_S16LSB, SDL_AUDIO_UNKNOWN]"
    by (simp add: ex_open_env_def)
  show ?thesis
    using h c negotiation_selects_first_mappable [OF h] by simp
qed

text \<open>
  Claim C8 says that the native-to-generic mapping never maps an unlisted native format
  to a supported generic format. It does: a native code outside the table comes back as
  \<^verbatim>\<open>SDL_AUDIO_S16\<close>, which is in the table.
\<close>

theorem unlisted_native_reported_as_s16:
  "QnxFormatToSDLFormat SDL_LIL_ENDIAN (SND_PCM_SFMT_OTHER 0) = SDL_AUDIO_S16LSB
   \<and> SND_PCM_SFMT_OTHER 0 \<notin> set supported_native
   \<and> SDL_AUDIO_S16LSB \<in> set supported_generic"
  by (simp add: SDL_AUDIO_S16_def supported_native_def supported_generic_def)

lemma QSA_OpenDevice_format:
  assumes "fst (QSA_OpenDevice env device) = Inr ()"
  shows "format (spec (fst (snd (QSA_OpenDevice env device)))) \<in> set supported_generic"
proof -
  obtain tf cp where fl: "format_loop (oe_closefmts env (format (spec device))) QSA_InitAudioParams = (tf, cp)"
    by (cases "format_loop (oe_closefmts env (format (spec device))) QSA_InitAudioParams")
  have "tf = SDL_AUDIO_UNKNOWN \<or> tf \<in> set supported_generic"
    using format_loop_fst [of "oe_closefmts env (format (spec device))" QSA_InitAudioParams] fl by simp
  with assms fl show ?thesis
    by (auto simp: QSA_OpenDevice_def Let_def split: if_splits)
qed

lemma QSA_OpenDevice_format_any:
  "format (spec (fst (snd (QSA_OpenDevice env device)))) = format (spec device)
   \<or> format (spec (fst (snd (QSA_OpenDevice env device)))) \<in> set supported_generic"
proof -
  obtain tf cp where fl: "format_loop (oe_closefmts env (format (spec device))) QSA_InitAudioParams = (tf, cp)"
    by (cases "format_loop (oe_closefmts env (format (spec device))) QSA_InitAudioParams")
  have "tf = SDL_AUDIO_UNKNOWN \<or> tf \<in> set supported_generic"
    using format_loop_fst [of "oe_closefmts env (format (spec device))" QSA_InitAudioParams] fl by simp
  with fl show ?thesis
    by (auto simp: QSA_OpenDevice_def Let_def)
qed

lemma QnxFormatToSDLFormat_unlisted:
  "f \<notin> set supported_native \<Longrightarrow> QnxFormatToSDLFormat bo f = SDL_AUDIO_S16 bo"
  by (cases f) (simp_all add: supported_native_def)

lemma SDL_AUDIO_S16_supported: "SDL_AUDIO_S16 bo \<in> set supported_generic"
  by (cases bo) (simp_all add: SDL_AUDIO_S16_def supported_generic_def)

text \<open>
  Claim C8, amended. Negotiation never selects a generic format outside the table: a
  successful open leaves a format of the table in the device, any open leaves there
  either the format it found or one of the table, and when no candidate is in the table
  the open fails with the ``no hardware audio formats'' error. The
  native-to-generic mapping rejects nothing: every native format outside the table is
  reported as \<^verbatim>\<open>SDL_AUDIO_S16\<close>, signed 16 bit in the byte order of the host, which is
  a format of the table.
\<close>

theorem unlisted_formats_amended:
  "(fst (QSA_OpenDevice env device) = Inr () \<longrightarrow>
      format (spec (fst (snd (QSA_OpenDevice env device)))) \<in> set supported_generic)
   \<and> (format (spec (fst (snd (QSA_OpenDevice env device)))) = format (spec device)
        \<or> format (spec (fst (snd (QSA_OpenDevice env device)))) \<in> set supported_generic)
   \<and> (\<not> recording device \<and> oe_calloc env \<and> 0 \<le> fst (oe_pcm_open env)
        \<and> (\<forall>g \<in> set (oe_closefmts env (format (spec device))). g \<notin> set supported_generic) \<longrightarrow>
      fst (QSA_OpenDevice env device) = Inl NoHardwareFormat)
   \<and> (f \<notin> set supported_native \<longrightarrow>
        QnxFormatToSDLFormat bo f = SDL_AUDIO_S16 bo \<and> SDL_AUDIO_S16 bo \<in> set supported_generic)"
proof (intro conjI impI)
  assume "fst (QSA_OpenDevice env device) = Inr ()"
  then show "format (spec (fst (snd (QSA_OpenDevice env device)))) \<in> set supported_generic"
    by (rule QSA_OpenDevice_format)
next
  show "format (spec (fst (snd (QSA_OpenDevice env device)))) = format (spec device)
        \<or> format (spec (fst (snd (QSA_OpenDevice env device)))) \<in> set supported_generic"
    by (rule QSA_OpenDevice_format_any)
next
  assume a: "\<not> recording device \<and> oe_calloc env \<and> 0 \<le> fst (oe_pcm_open env)
        \<and> (\<forall>g \<in> set (oe_closefmts env (format (spec device))). g \<notin> set supported_generic)"
  then have "\<forall>g \<in> set (oe_closefmts env (format (spec device))). CHECKFMT_open g = None"
    using CHECKFMT_open_supported by blast
  then have "format_loop (oe_closefmts env (format (spec device))) QSA_InitAudioParams
             = (SDL_AUDIO_UNKNOWN, QSA_InitAudioParams)"
    by (rule format_loop_none)
  with a show "fst (QSA_OpenDevice env device) = Inl NoHardwareFormat"
    by (simp add: QSA_OpenDevice_def Let_def)
next
  assume "f \<notin> set supported_native"
  then show "QnxFormatToSDLFormat bo f = SDL_AUDIO_S16 bo"
    by (rule QnxFormatToSDLFormat_unlisted)
next
  show "SDL_AUDIO_S16 bo \<in> set supported_generic" by (rule SDL_AUDIO_S16_supported)
qed

theorem unlisted_formats_amended_witness:
  "fst (QSA_OpenDevice ex_open_env ex_closed) = Inr ()
   \<and> format (spec (fst (snd (QSA_OpenDevice ex_open_env ex_closed)))) \<in> set supported_generic
   \<and> fst (QSA_OpenDevice (ex_open_env\<lparr>oe_closefmts := (\<lambda>f. [SDL_AUDIO_OTHER 16, SDL_AUDIO_UNKNOWN])\<rparr>) ex_closed)
       = Inl NoHardwareFormat
   \<and> SND_PCM_SFMT_OTHER 5 \<notin> set supported_native
   \<and> QnxFormatToSDLFormat SDL_BIG_ENDIAN (SND_PCM_SFMT_OTHER 5) = SDL_AUDIO_S16MSB"
proof -
  have ok: "fst (QSA_OpenDevice ex_open_env ex_closed) = Inr ()"
    by (simp add: QSA_OpenDevice_def Let_def ex_open_env_def ex_closed_def ex_device_def)
  have pre: "\<not> recording ex_closed \<and> oe_calloc (ex_open_env\<lparr>oe_closefmts := (\<lambda>f. [SDL_AUDIO_OTHER 16, SDL_AUDIO_UNKNOWN])\<rparr>)
     \<and> 0 \<le> fst (oe_pcm_open (ex_open_env\<lparr>oe_closefmts := (\<lambda>f. [SDL_AUDIO_OTHER 16, SDL_AUDIO_UNKNOWN])\<rparr>))
     \<and> (\<forall>g \<in> set (oe_closefmts (ex_open_env\<lparr>oe_closefmts := (\<lambda>f. [SDL_AUDIO_OTHER 16, SDL_AUDIO_UNKNOWN])\<rparr>)
                     (format (spec ex_closed))). g \<notin> set supported_generic)"
    by (simp add: ex_open_env_def ex_closed_def ex_device_def supported_generic_def)
  have nat: "SND_PCM_SFMT_OTHER 5 \<notin> set supported_native"
    by (simp add: supported_native_def)
  show ?thesis
    using ok pre nat
      unlisted_formats_amended [of ex_open_env ex_closed "SND_PCM_SFMT_OTHER 5" SDL_BIG_ENDIAN]
      unlisted_formats_amended [of "ex_open_env\<lparr>oe_closefmts := (\<lambda>f. [SDL_AUDIO_OTHER 16, SDL_AUDIO_UNKNOWN])\<rparr>"
          ex_closed "SND_PCM_SFMT_OTHER 5" SDL_BIG_ENDIAN]
    by (simp add: SDL_AUDIO_S16_def)
qed

subsection \<open>The empty loop of line 122\<close>

lemma spin_exit: "sd k \<Longrightarrow> spin tw sd k = Some (if tw > 0 then Suc k else k)"
  by (subst spin.simps) simp

lemma spin_nonpositive: "tw \<le> 0 \<Longrightarrow> spin tw sd k = Some k"
  by (subst spin.simps) simp

lemma spin_step: "0 < tw \<Longrightarrow> \<not> sd k \<Longrightarrow> spin tw sd k = spin tw sd (Suc k)"
  by (subst spin.simps) simp

lemma spin_Some:
  assumes "spin tw sd k = Some y"
  shows "if 0 < tw then k < y \<and> sd (y - 1) \<and> (\<forall>j. k \<le> j \<and> j < y - 1 \<longrightarrow> \<not> sd j) else y = k"
proof (rule spin.raw_induct
    [where P = "\<lambda>tw sd k y. if 0 < tw then k < y \<and> sd (y - 1) \<and> (\<forall>j. k \<le> j \<and> j < y - 1 \<longrightarrow> \<not> sd j) else y = k",
     OF _ assms])
  fix f :: "int \<Rightarrow> (nat \<Rightarrow> bool) \<Rightarrow> nat \<Rightarrow> nat option" and tw sd k y
  assume IH: "\<And>tw sd k y. f tw sd k = Some y \<Longrightarrow>
      (if 0 < tw then k < y \<and> sd (y - 1) \<and> (\<forall>j. k \<le> j \<and> j < y - 1 \<longrightarrow> \<not> sd j) else y = k)"
    and eq: "(if 0 < tw then if \<not> sd k then f tw sd (Suc k) else Some (Suc k) else Some k) = Some y"
  show "if 0 < tw then k < y \<and> sd (y - 1) \<and> (\<forall>j. k \<le> j \<and> j < y - 1 \<longrightarrow> \<not> sd j) else y = k"
  proof (cases "0 < tw")
    case False
    with eq show ?thesis by simp
  next
    case pos: True
    show ?thesis
    proof (cases "sd k")
      case True
      with eq pos show ?thesis by auto
    next
      case False
      with eq pos have "f tw sd (Suc k) = Some y" by simp
      from IH [OF this] pos
      have h: "Suc k < y" "sd (y - 1)" "\<forall>j. Suc k \<le> j \<and> j < y - 1 \<longrightarrow> \<not> sd j"
        by simp_all
      have "\<forall>j. k \<le> j \<and> j < y - 1 \<longrightarrow> \<not> sd j"
      proof (intro allI impI)
        fix j assume "k \<le> j \<and> j < y - 1"
        then show "\<not> sd j" using h(3) False by (cases "j = k") auto
      qed
      with h pos show ?thesis by simp
    qed
  qed
qed

lemma spin_never: "0 < tw \<Longrightarrow> (\<And>j. \<not> sd j) \<Longrightarrow> spin tw sd k = None"
proof (rule ccontr)
  assume a: "0 < tw" "\<And>j. \<not> sd j" "spin tw sd k \<noteq> None"
  then obtain y where "spin tw sd k = Some y" by auto
  from spin_Some [OF this] a show False by simp
qed

lemma spin_reach: "0 < tw \<Longrightarrow> sd (k + n) \<Longrightarrow> (\<And>j. j < n \<Longrightarrow> \<not> sd (k + j)) \<Longrightarrow> spin tw sd k = Some (Suc (k + n))"
proof (induction n arbitrary: k)
  case 0
  then show ?case by (simp add: spin_exit)
next
  case (Suc n)
  from Suc.prems(3) [of 0] have "\<not> sd k" by simp
  then have "spin tw sd k = spin tw sd (Suc k)" using Suc.prems(1) by (rule spin_step [rotated])
  also have "\<dots> = Some (Suc (Suc k + n))"
  proof (rule Suc.IH [OF Suc.prems(1)])
    show "sd (Suc k + n)" using Suc.prems(2) by simp
    fix j assume "j < n" then show "\<not> sd (Suc k + j)" using Suc.prems(3) [of "Suc j"] by simp
  qed
  finally show ?case by simp
qed

subsection \<open>Playing\<close>

lemma play_body_would_block:
  assumes "fst wr \<noteq> towrite" and "snd wr = EAGAIN \<or> snd wr = EWOULDBLOCK"
    and "\<not> (snd wr = EAGAIN \<and> fst wr = 0 \<and> timeout_on_wait h)"
  shows "play_body device h towrite buffer wr st pr =
           (Continue (towrite - fst wr) (buffer + fst wr * channels (spec device)),
            [Snd_pcm_plugin_write (audio_handle h) buffer towrite, SDL_Delay 1])"
  using assms by (auto simp: play_body_def Let_def)

lemma play_body_Return_True:
  "play_body device h towrite buffer wr st pr = (Return True, calls) \<Longrightarrow>
   timeout_on_wait h \<and> wr = (0, EAGAIN) \<and> towrite \<noteq> 0"
  by (cases wr) (auto simp: play_body_def Let_def split: if_splits)

text \<open>
  Claim C7. With the timeout-on-wait flag set, a native write that transfers zero bytes
  and leaves \<^verbatim>\<open>EAGAIN\<close> makes the block return success with that one write as its only
  call; and \<open>QSA_PlayDevice\<close>, once it has left the loop of line 122 and made that
  write, returns success with no other native call.
\<close>

theorem stalled_short_circuit:
  assumes "timeout_on_wait h"
  shows "(towrite \<noteq> 0 \<longrightarrow>
            play_body device h towrite buffer (0, EAGAIN) st pr
              = (Return True, [Snd_pcm_plugin_write (audio_handle h) buffer towrite]))
       \<and> (hidden device = Some h \<and> \<not> pe_shutdown env 0 \<and> pe_write env = (0, EAGAIN)
            \<and> spin buflen (pe_shutdown env) 1 = Some k \<longrightarrow>
            QSA_PlayDevice env device buflen
              = Some (Return True, [Snd_pcm_plugin_write (audio_handle h) 0 buflen], k))"
  using assms by (auto simp: QSA_PlayDevice_def play_body_def Let_def)

theorem stalled_short_circuit_witness:
  "timeout_on_wait ex_hidden
   \<and> play_body ex_device ex_hidden 4096 0 (0, EAGAIN) (0, SND_PCM_STATUS_READY) 0
       = (Return True, [Snd_pcm_plugin_write (Some 7) 0 4096])
   \<and> QSA_PlayDevice (ex_play_env\<lparr>pe_write := (0, EAGAIN)\<rparr>) ex_device 4096
       = Some (Return True, [Snd_pcm_plugin_write (Some 7) 0 4096], 4)"
proof -
  have t: "timeout_on_wait ex_hidden" by (simp add: ex_hidden_def)
  have s: "spin 4096 (\<lambda>k. 3 \<le> k) (Suc 0) = Some 4"
    using spin_reach [of 4096 "\<lambda>k. 3 \<le> k" 1 2] by simp
  show ?thesis
    using t s stalled_short_circuit [OF t, of 4096 ex_device 0 "(0, SND_PCM_STATUS_READY)" 0
        "ex_play_env\<lparr>pe_write := (0, EAGAIN)\<rparr>" 4096 4]
    by (simp add: ex_device_def ex_hidden_def ex_play_env_def)
qed

text \<open>
  For a positive length, whatever the function as written calls, it calls after a read
  that saw the shutdown flag set, all earlier reads having seen it unset.
\<close>

lemma written_only_after_shutdown:
  assumes "0 < buflen" and "QSA_PlayDevice env device buflen = Some (fl, calls, k)"
    and "calls \<noteq> []"
  shows "pe_shutdown env (k - 1) \<and> 1 < k \<and> (\<forall>j. j < k - 1 \<longrightarrow> \<not> pe_shutdown env j)"
proof -
  from assms(2,3) have n0: "\<not> pe_shutdown env 0"
    by (auto simp: QSA_PlayDevice_def)
  from assms(2,3) n0 obtain h where h: "hidden device = Some h"
    by (cases "hidden device") (auto simp: QSA_PlayDevice_def)
  from assms(2) n0 h have "spin buflen (pe_shutdown env) 1 = Some k"
    by (auto simp: QSA_PlayDevice_def split: option.splits prod.splits flow.splits)
  from spin_Some [OF this] assms(1)
  have s: "1 < k" "pe_shutdown env (k - 1)" "\<forall>j. 1 \<le> j \<and> j < k - 1 \<longrightarrow> \<not> pe_shutdown env j"
    by simp_all
  have "\<forall>j. j < k - 1 \<longrightarrow> \<not> pe_shutdown env j"
  proof (intro allI impI)
    fix j assume "j < k - 1"
    then show "\<not> pe_shutdown env j" using s(3) n0 by (cases "j = 0") auto
  qed
  with s show ?thesis by simp
qed

text \<open>
  Claim C1 says that a native write is attempted only while bytes remain and the
  shutdown flag is unset, the flag being checked before each attempt. The function as
  written does the opposite. Called with 4 bytes while the flag is unset (reads 0 to 2),
  it makes no write as long as the flag stays unset; when read 3 sees the flag set, the
  loop of line 122 ends and the write of all 4 bytes is made, once. If the flag is never
  set, the call never returns and never writes.
\<close>

theorem empty_loop_write_after_shutdown:
  "QSA_PlayDevice ex_play_env ex_device 4
     = Some (Return True, [Snd_pcm_plugin_write (Some 7) 0 4], 4)
   \<and> \<not> pe_shutdown ex_play_env 2 \<and> pe_shutdown ex_play_env 3
   \<and> QSA_PlayDevice (ex_play_env\<lparr>pe_shutdown := (\<lambda>k. False)\<rparr>) ex_device 4 = None"
proof -
  have s: "spin 4 (\<lambda>k. 3 \<le> k) (Suc 0) = Some 4"
    using spin_reach [of 4 "\<lambda>k. 3 \<le> k" 1 2] by simp
  have n: "spin 4 (\<lambda>k. False) (Suc 0) = None"
    by (rule spin_never) simp_all
  show ?thesis
    by (simp add: QSA_PlayDevice_def play_body_def Let_def ex_play_env_def ex_device_def ex_hidden_def s n)
qed

text \<open>
  Claim C5 says that a partial write of \<open>n\<close> bytes with a would-block error advances
  the cursor by \<open>n\<close> and lowers the remaining count by \<open>n\<close>. The count is lowered by
  \<open>n\<close>, but the cursor moves by \<open>n\<close> times the channel count: with two channels, 100
  bytes written out of 400 leave 300 bytes to write from offset 200, so the bytes at
  offsets 100 to 199 are skipped.
\<close>

theorem partial_write_cursor:
  "play_body ex_device (ex_hidden\<lparr>timeout_on_wait := False\<rparr>) 400 0 (100, EAGAIN) (0, SND_PCM_STATUS_READY) 0
     = (Continue 300 200, [Snd_pcm_plugin_write (Some 7) 0 400, SDL_Delay 1])
   \<and> channels (spec ex_device) = 2
   \<and> QSA_PlayDevice (ex_play_env\<lparr>pe_write := (100, EAGAIN)\<rparr>)
        (ex_device\<lparr>hidden := Some (ex_hidden\<lparr>timeout_on_wait := False\<rparr>)\<rparr>) 400
     = Some (Continue 300 200, [Snd_pcm_plugin_write (Some 7) 0 400, SDL_Delay 1], 4)"
proof -
  have s: "spin 400 (\<lambda>k. 3 \<le> k) (Suc 0) = Some 4"
    using spin_reach [of 400 "\<lambda>k. 3 \<le> k" 1 2] by simp
  show ?thesis
    by (simp add: QSA_PlayDevice_def play_body_def Let_def ex_play_env_def ex_device_def ex_hidden_def s)
qed

text \<open>
  Claim C4 says that a status other than underrun or ready, reported by a status query
  that succeeds, makes play fail. It does not: the block reaches its \<^verbatim>\<open>continue\<close> with
  the count and the cursor unchanged, having made no re-prepare, and no failure is
  returned.
\<close>

theorem other_status_not_fatal:
  "play_body ex_device ex_hidden 400 0 (- 1, EIO) (0, SND_PCM_STATUS_OTHER 3) 0
     = (Continue 400 0, [Snd_pcm_plugin_write (Some 7) 0 400,
                         Snd_pcm_plugin_status (Some 7) SND_PCM_CHANNEL_PLAYBACK])
   \<and> fst (play_body ex_device ex_hidden 400 0 (- 1, EIO) (0, SND_PCM_STATUS_OTHER 3) 0) \<noteq> Return False
   \<and> QSA_PlayDevice (ex_play_env\<lparr>pe_write := (- 1, EIO)\<rparr>) ex_device 400
     = Some (Continue 400 0, [Snd_pcm_plugin_write (Some 7) 0 400,
                              Snd_pcm_plugin_status (Some 7) SND_PCM_CHANNEL_PLAYBACK], 4)"
proof -
  have s: "spin 400 (\<lambda>k. 3 \<le> k) (Suc 0) = Some 4"
    using spin_reach [of 400 "\<lambda>k. 3 \<le> k" 1 2] by simp
  show ?thesis
    by (simp add: QSA_PlayDevice_def play_body_def Let_def direction_def
        ex_play_env_def ex_device_def ex_hidden_def s)
qed

text \<open>
  Claim C4, amended. When the native write does not transfer the remaining count and
  leaves \<^verbatim>\<open>EINVAL\<close> or \<^verbatim>\<open>EIO\<close>, the status is queried. A failed query returns failure.
  A status of underrun or ready leads to one re-prepare; if that fails, failure is
  returned, otherwise the block reaches its \<^verbatim>\<open>continue\<close> with the count and the cursor
  unchanged. Any other status reaches the same \<^verbatim>\<open>continue\<close> with no re-prepare: it is
  not a failure.
\<close>

theorem status_recovery:
  assumes "fst wr \<noteq> towrite" and "snd wr = EINVAL \<or> snd wr = EIO"
  shows "play_body device h towrite buffer wr st pr =
     (let w = Snd_pcm_plugin_write (audio_handle h) buffer towrite;
          q = Snd_pcm_plugin_status (audio_handle h) (direction device);
          p = Snd_pcm_plugin_prepare (audio_handle h) (direction device)
      in if fst st < 0 then (Return False, [w, q, QSA_SetError ''snd_pcm_plugin_status'' (fst st)])
         else if snd st = SND_PCM_STATUS_UNDERRUN \<or> snd st = SND_PCM_STATUS_READY then
           (if pr < 0 then (Return False, [w, q, p, QSA_SetError ''snd_pcm_plugin_prepare'' pr])
            else (Continue towrite buffer, [w, q, p]))
         else (Continue towrite buffer, [w, q]))"
  using assms by (auto simp: play_body_def Let_def)

theorem status_recovery_witness:
  "play_body ex_device ex_hidden 400 0 (- 1, EIO) (0, SND_PCM_STATUS_UNDERRUN) 0
     = (Continue 400 0, [Snd_pcm_plugin_write (Some 7) 0 400,
                         Snd_pcm_plugin_status (Some 7) SND_PCM_CHANNEL_PLAYBACK,
                         Snd_pcm_plugin_prepare (Some 7) SND_PCM_CHANNEL_PLAYBACK])
   \<and> fst (play_body ex_device ex_hidden 400 0 (- 1, EINVAL) (- 9, SND_PCM_STATUS_READY) 0) = Return False
   \<and> fst (play_body ex_device ex_hidden 400 0 (- 1, EINVAL) (0, SND_PCM_STATUS_READY) (- 3)) = Return False"
  using status_recovery [of "(- 1, EIO)" 400 ex_device ex_hidden 0 "(0, SND_PCM_STATUS_UNDERRUN)" 0]
    status_recovery [of "(- 1, EINVAL)" 400 ex_device ex_hidden 0 "(- 9, SND_PCM_STATUS_READY)" 0]
    status_recovery [of "(- 1, EINVAL)" 400 ex_device ex_hidden 0 "(0, SND_PCM_STATUS_READY)" "- 3"]
  by (simp add: Let_def ex_device_def ex_hidden_def direction_def)

subsection \<open>Waiting\<close>

text \<open>
  Claim C10. When the poll of \<open>QSA_WaitDevice\<close>, made with a timeout of 2000 ms, reports
  the descriptor ready (any result but the failure \<open>- 1\<close> and the timeout \<open>0\<close>), the call
  returns success and the timeout-on-wait flag is false, whatever it was before. A
  timeout returns success with the flag set; a poll failure returns failure and leaves
  the device as it was, which ends the stream. And when a wait that returned success is
  followed by the block of \<open>QSA_PlayDevice\<close> returning success from its stalled-device
  check (the only \<^verbatim>\<open>return true\<close> of the block), that wait was a timeout: a flag left
  by an earlier period does not reach it.
\<close>

theorem wait_resets_timeout_flag:
  assumes "hidden device = Some h"
    and "r = SDL_IOReady (audio_fd h) (if recording device then SDL_IOR_READ else SDL_IOR_WRITE) 2000"
  shows "(r \<noteq> - 1 \<and> r \<noteq> 0 \<longrightarrow>
            QSA_WaitDevice SDL_IOReady device
              = Inr (True, device\<lparr>hidden := Some (h\<lparr>timeout_on_wait := False\<rparr>)\<rparr>))
       \<and> (r = 0 \<longrightarrow>
            QSA_WaitDevice SDL_IOReady device
              = Inr (True, device\<lparr>hidden := Some (h\<lparr>timeout_on_wait := True\<rparr>)\<rparr>))
       \<and> (r = - 1 \<longrightarrow> QSA_WaitDevice SDL_IOReady device = Inr (False, device))
       \<and> (\<forall>d' h' towrite buffer wr st pr calls.
            QSA_WaitDevice SDL_IOReady device = Inr (True, d') \<and> hidden d' = Some h'
            \<and> play_body d' h' towrite buffer wr st pr = (Return True, calls)
            \<longrightarrow> r = 0)"
proof (intro conjI allI impI)
  assume "r \<noteq> - 1 \<and> r \<noteq> 0"
  then show "QSA_WaitDevice SDL_IOReady device
              = Inr (True, device\<lparr>hidden := Some (h\<lparr>timeout_on_wait := False\<rparr>)\<rparr>)"
    using assms by (simp add: QSA_WaitDevice_def Let_def)
next
  assume "r = 0"
  then show "QSA_WaitDevice SDL_IOReady device
              = Inr (True, device\<lparr>hidden := Some (h\<lparr>timeout_on_wait := True\<rparr>)\<rparr>)"
    using assms by (simp add: QSA_WaitDevice_def Let_def)
next
  assume "r = - 1"
  then show "QSA_WaitDevice SDL_IOReady device = Inr (False, device)"
    using assms by (simp add: QSA_WaitDevice_def Let_def)
next
  fix d' h' towrite buffer wr st pr calls
  assume a: "QSA_WaitDevice SDL_IOReady device = Inr (True, d') \<and> hidden d' = Some h'
            \<and> play_body d' h' towrite buffer wr st pr = (Return True, calls)"
  then have "timeout_on_wait h'" using play_body_Return_True by blast
  with a assms show "r = 0"
    by (auto simp: QSA_WaitDevice_def Let_def split: if_splits)
qed

theorem wait_resets_timeout_flag_witness:
  "hidden ex_device = Some ex_hidden \<and> timeout_on_wait ex_hidden
   \<and> QSA_WaitDevice (\<lambda>fd fl ms. 1) ex_device
       = Inr (True, ex_device\<lparr>hidden := Some (ex_hidden\<lparr>timeout_on_wait := False\<rparr>)\<rparr>)
   \<and> play_body (ex_device\<lparr>hidden := Some (ex_hidden\<lparr>timeout_on_wait := False\<rparr>)\<rparr>)
        (ex_hidden\<lparr>timeout_on_wait := False\<rparr>) 4096 0 (0, EAGAIN) (0, SND_PCM_STATUS_READY) 0
       = (Continue 4096 0, [Snd_pcm_plugin_write (Some 7) 0 4096, SDL_Delay 1])"
proof -
  have h: "hidden ex_device = Some ex_hidden" by (simp add: ex_device_def)
  show ?thesis
    using h wait_resets_timeout_flag [OF h, of 1 "\<lambda>fd fl ms. 1"]
    by (simp add: play_body_def ex_hidden_def ex_device_def)
qed

subsection \<open>Closing\<close>

text \<open>
  Claim C9. Closing a device that has just been closed makes no call and changes nothing;
  over the two calls a non-null output buffer is freed at most once, the private block
  is freed at most once and the native handle is closed at most once; no native call is
  made on a missing handle. On a block
  without a native handle the teardown is the two frees alone, on a block without an
  output buffer no buffer is freed, and on a device without a private block nothing
  happens. This holds for every device state, those left by a failed open among them.
\<close>

theorem close_idempotent:
  "QSA_CloseDevice v (fst (QSA_CloseDevice v device)) = (fst (QSA_CloseDevice v device), [])
   \<and> hidden (fst (QSA_CloseDevice v device)) = None
   \<and> length (filter is_buf_free
        (snd (QSA_CloseDevice v device) @ snd (QSA_CloseDevice v (fst (QSA_CloseDevice v device))))) \<le> 1
   \<and> length (filter is_pcm_close
        (snd (QSA_CloseDevice v device) @ snd (QSA_CloseDevice v (fst (QSA_CloseDevice v device))))) \<le> 1
   \<and> length (filter (\<lambda>c. c = SDL_free_hidden)
        (snd (QSA_CloseDevice v device) @ snd (QSA_CloseDevice v (fst (QSA_CloseDevice v device))))) \<le> 1
   \<and> filter on_null_handle (snd (QSA_CloseDevice v device)) = []
   \<and> (\<forall>h. hidden device = Some h \<and> audio_handle h = None \<longrightarrow>
         snd (QSA_CloseDevice v device) = [SDL_free_pcm_buf (pcm_buf h), SDL_free_hidden])
   \<and> (\<forall>h. hidden device = Some h \<and> pcm_buf h = None \<longrightarrow>
         filter is_buf_free (snd (QSA_CloseDevice v device)) = [])
   \<and> (hidden device = None \<longrightarrow> QSA_CloseDevice v device = (device, []))"
proof -
  show ?thesis
  proof (cases "hidden device")
    case None
    then show ?thesis by (simp add: QSA_CloseDevice_def)
  next
    case (Some h)
    then show ?thesis
      by (cases "audio_handle h"; cases "pcm_buf h") (simp_all add: QSA_CloseDevice_def)
  qed
qed

theorem close_idempotent_witness:
  "fst (QSA_OpenDevice (ex_open_env\<lparr>oe_pcm_open := (- 5, 0)\<rparr>) ex_closed)
     = Inl (NativeFailed ''snd_pcm_open'' (- 5))
   \<and> hidden (fst (snd (QSA_OpenDevice (ex_open_env\<lparr>oe_pcm_open := (- 5, 0)\<rparr>) ex_closed)))
     = Some \<lparr>audio_handle = None, audio_fd = 0, timeout_on_wait = False, pcm_buf = None\<rparr>
   \<and> snd (QSA_CloseDevice 700 (fst (snd (QSA_OpenDevice (ex_open_env\<lparr>oe_pcm_open := (- 5, 0)\<rparr>) ex_closed))))
     = [SDL_free_pcm_buf None, SDL_free_hidden]
   \<and> QSA_CloseDevice 700 (fst (QSA_CloseDevice 700
         (fst (snd (QSA_OpenDevice (ex_open_env\<lparr>oe_pcm_open := (- 5, 0)\<rparr>) ex_closed)))))
     = (ex_closed, [])"
  using close_idempotent [of 700 "fst (snd (QSA_OpenDevice (ex_open_env\<lparr>oe_pcm_open := (- 5, 0)\<rparr>) ex_closed))"]
  by (simp add: QSA_OpenDevice_def QSA_CloseDevice_def Let_def ex_open_env_def ex_closed_def ex_device_def)

subsection \<open>Detecting\<close>

text \<open>
  Claim C6 says that the setup query of a device whose tentative open succeeded is made
  on the handle just opened. It is made on \<^verbatim>\<open>device->hidden->audio_handle\<close>: here the
  tentative open gives handle 42, the query goes to handle 7, and the device is reported
  with the setup of handle 7 and not the one of handle 42. When that query fails the
  device is reported without a spec and the loop goes on; when \<^verbatim>\<open>device->hidden\<close> is
  \<^verbatim>\<open>NULL\<close> the query dereferences it.
\<close>

theorem setup_query_on_other_handle:
  "detect_probe SDL_LIL_ENDIAN ex_detect_env ex_device 0 0
     = Inr (NextDevice,
        [Snd_card_get_longname 0, Snd_pcm_open 0 0 SND_PCM_OPEN_PLAYBACK,
         Snd_pcm_plugin_setup (Some 7) SND_PCM_CHANNEL_PLAYBACK,
         Snd_pcm_close (Some 42),
         SDL_AddAudioDevice False ''Card d0''
           (Some \<lparr>format = SDL_AUDIO_U8, channels = 1, freq = 8000\<rparr>) 0])
   \<and> de_pcm_open ex_detect_env 0 0 SND_PCM_OPEN_PLAYBACK = (0, 42)
   \<and> de_setup ex_detect_env (Some 42) SND_PCM_CHANNEL_PLAYBACK = (0, SND_PCM_SFMT_S32_LE, 2, 48000)
   \<and> detect_probe SDL_LIL_ENDIAN
        (ex_detect_env\<lparr>de_setup := (\<lambda>a c. (- 1, SND_PCM_SFMT_U8, 0, 0))\<rparr>) ex_device 0 0
     = Inr (NextDevice,
        [Snd_card_get_longname 0, Snd_pcm_open 0 0 SND_PCM_OPEN_PLAYBACK,
         Snd_pcm_plugin_setup (Some 7) SND_PCM_CHANNEL_PLAYBACK,
         Snd_pcm_close (Some 42),
         SDL_AddAudioDevice False ''Card d0'' None 0])
   \<and> detect_probe SDL_LIL_ENDIAN ex_detect_env ex_closed 0 0 = Inl NullDereference"
  by (simp add: detect_probe_def ex_detect_env_def ex_device_def ex_hidden_def ex_closed_def
      EOK_def QSA_MAX_NAME_LENGTH_def dec_int_def Let_def)

end
